theory Spec2Isabelle
  imports Main "HOL-Library.Word" "HOL-Library.Sublist"
begin

section \<open>Connection tracker (package connection)\<close>

text \<open>
  The tracker keeps, per connection, the bytes of the exchange in flight and six queues
  for the exchanges that are complete but not yet collected. Go's \<open>uint64\<close> is a
  64-bit word (addition and subtraction wrap), \<open>int32\<close> is a 32-bit word read with
  \<open>sint\<close>, a \<open>[]byte\<close> is a list of 8-bit words and a queue is a list whose head is
  element 0.
\<close>

type_synonym byte = "8 word"
type_synonym uint64 = "64 word"
type_synonym int32 = "32 word"

datatype level = Debug | Info | Warn | Error

text \<open>
  The fields of \<open>Tracker\<close>. The connection id, the socket address and the mutex are
  left out: no function below reads them. The field \<open>logger\<close> holds what the logger
  has been handed so far (level and message, without the structured fields).
\<close>

record Tracker =
  openTimestamp :: uint64
  closeTimestamp :: uint64
  lastActivityTimestamp :: uint64
  totalSentBytesQueue :: "uint64 list"
  totalRecvBytesQueue :: "uint64 list"
  currentSentBytesQueue :: "uint64 list"
  currentRecvBytesQueue :: "uint64 list"
  currentSentBufQueue :: "byte list list"
  currentRecvBufQueue :: "byte list list"
  sentBytes :: uint64
  recvBytes :: uint64
  SentBuf :: "byte list"
  RecvBuf :: "byte list"
  gotResponseDataEvent :: bool
  gotRequestDataEvent :: bool
  recordTestCountAtomic :: int32
  firstRequest :: bool
  logger :: "(level \<times> string) list"

definition maxBufferSize :: nat where
  "maxBufferSize = 16 * 1024 * 1024"

definition NewTracker :: Tracker where
  "NewTracker =
     \<lparr> openTimestamp = 0, closeTimestamp = 0, lastActivityTimestamp = 0,
       totalSentBytesQueue = [], totalRecvBytesQueue = [],
       currentSentBytesQueue = [], currentRecvBytesQueue = [],
       currentSentBufQueue = [], currentRecvBufQueue = [],
       sentBytes = 0, recvBytes = 0, SentBuf = [], RecvBuf = [],
       gotResponseDataEvent = False, gotRequestDataEvent = False,
       recordTestCountAtomic = 0, firstRequest = True, logger = [] \<rparr>"

definition logmsg :: "level \<Rightarrow> string \<Rightarrow> Tracker \<Rightarrow> Tracker" where
  "logmsg l m conn = conn\<lparr> logger := logger conn @ [(l, m)] \<rparr>"

definition incRecordTestCount :: "Tracker \<Rightarrow> Tracker" where
  "incRecordTestCount conn = conn\<lparr> recordTestCountAtomic := recordTestCountAtomic conn + 1 \<rparr>"

definition decRecordTestCount :: "Tracker \<Rightarrow> Tracker" where
  "decRecordTestCount conn = conn\<lparr> recordTestCountAtomic := recordTestCountAtomic conn - 1 \<rparr>"

definition verifyRequestData :: "uint64 \<Rightarrow> uint64 \<Rightarrow> bool" where
  "verifyRequestData expectedRecvBytes actualRecvBytes = (expectedRecvBytes = actualRecvBytes)"

definition verifyResponseData :: "uint64 \<Rightarrow> uint64 \<Rightarrow> bool" where
  "verifyResponseData expectedSentBytes actualSentBytes = (expectedSentBytes = actualSentBytes)"

definition resetConnection :: "Tracker \<Rightarrow> Tracker" where
  "resetConnection conn =
     conn\<lparr> firstRequest := True, gotResponseDataEvent := False, gotRequestDataEvent := False,
           recvBytes := 0, sentBytes := 0, SentBuf := [], RecvBuf := [] \<rparr>"

definition UpdateTimestamps :: "uint64 \<Rightarrow> Tracker \<Rightarrow> Tracker" where
  "UpdateTimestamps now conn = conn\<lparr> lastActivityTimestamp := now \<rparr>"

text \<open>\<open>time.Second * 4\<close> in nanoseconds, converted to \<open>uint64\<close>.\<close>

definition fourSeconds :: uint64 where
  "fourSeconds = 4000000000"

text \<open>
  The first branch of \<open>IsComplete\<close> (lines 106--161), entered when the counter is
  positive. It returns \<open>recordTraffic\<close>, the two buffers and the tracker.
\<close>

definition IsComplete_counted :: "Tracker \<Rightarrow> (bool \<times> byte list \<times> byte list) \<times> Tracker" where
  "IsComplete_counted conn =
     (let (res, conn5) =
        (if (length (currentRecvBytesQueue conn) > 0 \<and> length (totalRecvBytesQueue conn) > 0)
            \<and> (length (currentSentBytesQueue conn) > 0 \<and> length (totalSentBytesQueue conn) > 0)
         then
           let expectedRecvBytes = hd (currentRecvBytesQueue conn);
               actualRecvBytes = hd (totalRecvBytesQueue conn);
               conn1 = conn\<lparr> currentRecvBytesQueue := tl (currentRecvBytesQueue conn),
                             totalRecvBytesQueue := tl (totalRecvBytesQueue conn) \<rparr>;
               validReq = verifyRequestData expectedRecvBytes actualRecvBytes;
               conn2 = (if validReq then conn1 else logmsg Debug ''Malformed request'' conn1);
               expectedSentBytes = hd (currentSentBytesQueue conn2);
               actualSentBytes = hd (totalSentBytesQueue conn2);
               conn3 = conn2\<lparr> currentSentBytesQueue := tl (currentSentBytesQueue conn2),
                              totalSentBytesQueue := tl (totalSentBytesQueue conn2) \<rparr>;
               validRes = verifyResponseData expectedSentBytes actualSentBytes;
               conn4 = (if validRes then conn3 else logmsg Debug ''Malformed response'' conn3);
               (requestBuf, responseBuf, conn5) =
                 (if length (currentRecvBufQueue conn4) > 0 \<and> length (currentSentBufQueue conn4) > 0
                  then (hd (currentRecvBufQueue conn4), hd (currentSentBufQueue conn4),
                        conn4\<lparr> currentRecvBufQueue := tl (currentRecvBufQueue conn4),
                               currentSentBufQueue := tl (currentSentBufQueue conn4) \<rparr>)
                  else ([], [], logmsg Debug ''no data buffer for request or response'' conn4))
           in ((validReq \<and> validRes, requestBuf, responseBuf), conn5)
         else ((False, [], []), logmsg Error ''malformed request or response'' conn));
         conn6 = logmsg Debug ''recording traffic after verifying the request and reponse data'' conn5;
         conn7 = decRecordTestCount conn6
      in (res, logmsg Debug ''verified recording'' conn7))"

text \<open>
  The second branch (lines 162--202), entered when the counter is not positive, a
  response data event has been seen and four seconds have passed.
\<close>

definition IsComplete_idle :: "Tracker \<Rightarrow> (bool \<times> byte list \<times> byte list) \<times> Tracker" where
  "IsComplete_idle conn0 =
     (let conn = logmsg Debug ''might be last request on the connection'' conn0;
          (res, conn4) =
        (if length (currentRecvBytesQueue conn) > 0 \<and> length (totalRecvBytesQueue conn) > 0
         then
           let expectedRecvBytes = hd (currentRecvBytesQueue conn);
               actualRecvBytes = hd (totalRecvBytesQueue conn);
               conn1 = conn\<lparr> currentRecvBytesQueue := tl (currentRecvBytesQueue conn),
                             totalRecvBytesQueue := tl (totalRecvBytesQueue conn) \<rparr>;
               recordTraffic = verifyRequestData expectedRecvBytes actualRecvBytes;
               conn2 = (if recordTraffic then conn1 else logmsg Debug ''Malformed request'' conn1)
           in (if length (currentRecvBufQueue conn2) > 0
               then ((recordTraffic, hd (currentRecvBufQueue conn2), SentBuf conn2),
                     conn2\<lparr> currentRecvBufQueue := tl (currentRecvBufQueue conn2) \<rparr>)
               else ((False, [], []), logmsg Debug ''no data buffer for request'' conn2))
         else ((False, [], []), logmsg Error ''malformed request'' conn));
         conn5 = logmsg Debug ''recording traffic after verifying the request data (but not response data)'' conn4;
         conn6 = resetConnection conn5
      in (res, logmsg Debug ''unverified recording'' conn6))"

text \<open>
  \<open>IsComplete\<close>; \<open>now\<close> is \<open>uint64(time.Now().UnixNano())\<close>. The subtraction wraps,
  as Go's does.
\<close>

definition IsComplete :: "uint64 \<Rightarrow> Tracker \<Rightarrow> (bool \<times> byte list \<times> byte list) \<times> Tracker" where
  "IsComplete now conn =
     (let elapsedTime = now - lastActivityTimestamp conn in
      if 0 < sint (recordTestCountAtomic conn) then IsComplete_counted conn
      else if gotResponseDataEvent conn \<and> elapsedTime \<ge> fourSeconds then IsComplete_idle conn
      else ((False, [], []), conn))"

subsection \<open>Data events\<close>

datatype TrafficDirection = EgressTraffic | IngressTraffic | OtherTraffic

text \<open>
  Modelled from the spec: the declaration of \<open>structs2.SocketDataEvent\<close> is not among
  the sources. The spec gives a data event a direction, bytes and a validated length;
  the fields below are the ones \<open>AddDataEvent\<close> reads. \<open>MsgSize\<close> is an unsigned
  count, \<open>ValidateReadBytes\<close> and \<open>ValidateWrittenBytes\<close> are given as converted by
  \<open>uint64(...)\<close>.
\<close>

record SocketDataEvent =
  Direction :: TrafficDirection
  MsgSize :: nat
  Msg :: "byte list"
  ValidateReadBytes :: uint64
  ValidateWrittenBytes :: uint64

text \<open>
  \<open>AddDataEvent\<close>. The constant \<open>structs2.EventBodyMaxSize\<close> is not among the
  sources either and is the parameter \<open>EventBodyMaxSize\<close>. The slice expression
  \<open>event.Msg[:msgLength]\<close> panics when \<open>msgLength\<close> is beyond the message's
  capacity: the result is then \<open>None\<close>.
\<close>

definition AddDataEvent :: "nat \<Rightarrow> uint64 \<Rightarrow> SocketDataEvent \<Rightarrow> Tracker \<Rightarrow> Tracker option" where
  "AddDataEvent EventBodyMaxSize now event conn0 =
     (let conn1 = UpdateTimestamps now conn0;
          conn = logmsg Debug ''Got a data event from eBPF'' conn1;
          msgLength = (if MsgSize event > EventBodyMaxSize then EventBodyMaxSize else MsgSize event)
      in case Direction event of
           EgressTraffic \<Rightarrow>
             if msgLength > length (Msg event) then None
             else
               let conn2 = conn\<lparr> SentBuf := SentBuf conn @ take msgLength (Msg event),
                                  sentBytes := sentBytes conn + of_nat (MsgSize event) \<rparr>
               in if firstRequest conn2 \<or> gotRequestDataEvent conn2
                  then Some (conn2\<lparr>
                         currentRecvBytesQueue := currentRecvBytesQueue conn2 @ [recvBytes conn2],
                         recvBytes := 0,
                         currentRecvBufQueue := currentRecvBufQueue conn2 @ [RecvBuf conn2],
                         RecvBuf := [],
                         gotRequestDataEvent := False,
                         gotResponseDataEvent := True,
                         totalRecvBytesQueue := totalRecvBytesQueue conn2 @ [ValidateReadBytes event],
                         firstRequest := False \<rparr>)
                  else Some conn2
         | IngressTraffic \<Rightarrow>
             if msgLength > length (Msg event) then None
             else
               let conn2 = conn\<lparr> RecvBuf := RecvBuf conn @ take msgLength (Msg event),
                                  recvBytes := recvBytes conn + of_nat (MsgSize event) \<rparr>
               in if \<not> firstRequest conn2 \<or> gotResponseDataEvent conn2
                  then Some (incRecordTestCount (conn2\<lparr>
                         currentSentBytesQueue := currentSentBytesQueue conn2 @ [sentBytes conn2],
                         sentBytes := 0,
                         currentSentBufQueue := currentSentBufQueue conn2 @ [SentBuf conn2],
                         SentBuf := [],
                         gotRequestDataEvent := True,
                         gotResponseDataEvent := False,
                         totalSentBytesQueue := totalSentBytesQueue conn2 @ [ValidateWrittenBytes event] \<rparr>))
                  else Some conn2
         | OtherTraffic \<Rightarrow> Some conn)"

subsection \<open>Sequences of calls\<close>

datatype call = DataEvent uint64 SocketDataEvent | Complete uint64

fun step :: "nat \<Rightarrow> Tracker \<Rightarrow> call \<Rightarrow> Tracker option" where
  "step E conn (DataEvent now event) = AddDataEvent E now event conn"
| "step E conn (Complete now) = Some (snd (IsComplete now conn))"

fun run :: "nat \<Rightarrow> Tracker \<Rightarrow> call list \<Rightarrow> Tracker option" where
  "run E conn [] = Some conn"
| "run E conn (c # cs) = (case step E conn c of None \<Rightarrow> None | Some conn' \<Rightarrow> run E conn' cs)"

text \<open>
  What holds of the queues in every state the calls can produce (shown below): each
  buffer queue is as long as the two byte-count queues of its side, and the counter is
  at most the number of queued response buffers.
\<close>

definition queues_parallel :: "Tracker \<Rightarrow> bool" where
  "queues_parallel conn =
     (length (currentRecvBufQueue conn) = length (currentRecvBytesQueue conn) \<and>
      length (totalRecvBytesQueue conn) = length (currentRecvBytesQueue conn) \<and>
      length (currentSentBufQueue conn) = length (currentSentBytesQueue conn) \<and>
      length (totalSentBytesQueue conn) = length (currentSentBytesQueue conn) \<and>
      sint (recordTestCountAtomic conn) \<le> int (length (currentSentBufQueue conn)))"

subsection \<open>Concrete trackers and traces\<close>

text \<open>A data event of one byte whose validated lengths are 1.\<close>

definition ev1 :: "TrafficDirection \<Rightarrow> SocketDataEvent" where
  "ev1 d = \<lparr> Direction = d, MsgSize = 1, Msg = [7], ValidateReadBytes = 1, ValidateWrittenBytes = 1 \<rparr>"




text \<open>All four byte-count queues hold one entry and both buffer queues are empty.\<close>

definition tracker_no_buffers :: Tracker where
  "tracker_no_buffers =
     NewTracker\<lparr> recordTestCountAtomic := 1, firstRequest := False,
       currentRecvBytesQueue := [5], totalRecvBytesQueue := [5],
       currentSentBytesQueue := [9], totalSentBytesQueue := [9] \<rparr>"

text \<open>A request followed by its response, and the tracker after the two events.\<close>

definition trace_last_exchange :: "call list" where
  "trace_last_exchange = [DataEvent 0 (ev1 IngressTraffic), DataEvent 0 (ev1 EgressTraffic)]"

definition tracker_last_exchange :: Tracker where
  "tracker_last_exchange =
     \<lparr> openTimestamp = 0, closeTimestamp = 0, lastActivityTimestamp = 0,
       totalSentBytesQueue = [], totalRecvBytesQueue = [1],
       currentSentBytesQueue = [], currentRecvBytesQueue = [1],
       currentSentBufQueue = [], currentRecvBufQueue = [[7]],
       sentBytes = 1, recvBytes = 0, SentBuf = [7], RecvBuf = [],
       gotResponseDataEvent = True, gotRequestDataEvent = False,
       recordTestCountAtomic = 0, firstRequest = False,
       logger = replicate 2 (Debug, ''Got a data event from eBPF'') \<rparr>"

text \<open>
  A request and its response, a second request that arrives in two data events, its
  response, and two calls of \<open>IsComplete\<close>; then the tracker after these calls.
\<close>

definition trace_split_request :: "call list" where
  "trace_split_request =
     [DataEvent 0 (ev1 IngressTraffic), DataEvent 0 (ev1 EgressTraffic),
      DataEvent 0 (ev1 IngressTraffic), DataEvent 0 (ev1 IngressTraffic),
      DataEvent 0 (ev1 EgressTraffic), Complete 1, Complete 2]"

definition tracker_split_request :: Tracker where
  "tracker_split_request =
     \<lparr> openTimestamp = 0, closeTimestamp = 0, lastActivityTimestamp = 0,
       totalSentBytesQueue = [], totalRecvBytesQueue = [],
       currentSentBytesQueue = [], currentRecvBytesQueue = [],
       currentSentBufQueue = [], currentRecvBufQueue = [],
       sentBytes = 1, recvBytes = 0, SentBuf = [7], RecvBuf = [],
       gotResponseDataEvent = True, gotRequestDataEvent = False,
       recordTestCountAtomic = 0, firstRequest = False,
       logger =
         [(Debug, ''Got a data event from eBPF''),
          (Debug, ''Got a data event from eBPF''),
          (Debug, ''Got a data event from eBPF''),
          (Debug, ''Got a data event from eBPF''),
          (Debug, ''Got a data event from eBPF''),
          (Debug, ''recording traffic after verifying the request and reponse data''),
          (Debug, ''verified recording''), (Debug, ''Malformed request''),
          (Debug, ''Malformed response''),
          (Debug, ''recording traffic after verifying the request and reponse data''),
          (Debug, ''verified recording'')] \<rparr>"

text \<open>Two requests, each followed by its response, with no call of \<open>IsComplete\<close>.\<close>

definition trace_two_responses :: "call list" where
  "trace_two_responses =
     [DataEvent 0 (ev1 IngressTraffic), DataEvent 0 (ev1 EgressTraffic),
      DataEvent 0 (ev1 IngressTraffic), DataEvent 0 (ev1 EgressTraffic)]"

definition tracker_two_responses :: Tracker where
  "tracker_two_responses =
     \<lparr> openTimestamp = 0, closeTimestamp = 0, lastActivityTimestamp = 0,
       totalSentBytesQueue = [1], totalRecvBytesQueue = [1, 1],
       currentSentBytesQueue = [1], currentRecvBytesQueue = [1, 1],
       currentSentBufQueue = [[7]], currentRecvBufQueue = [[7], [7]],
       sentBytes = 1, recvBytes = 0, SentBuf = [7], RecvBuf = [],
       gotResponseDataEvent = True, gotRequestDataEvent = False,
       recordTestCountAtomic = 1, firstRequest = False,
       logger = replicate 4 (Debug, ''Got a data event from eBPF'') \<rparr>"

text \<open>An outgoing data event that fills the whole event body with \<open>E\<close> bytes.\<close>

definition full_event :: "nat \<Rightarrow> SocketDataEvent" where
  "full_event E = \<lparr> Direction = EgressTraffic, MsgSize = E, Msg = replicate E 0,
      ValidateReadBytes = 0, ValidateWrittenBytes = 0 \<rparr>"

section \<open>HTTP parser (package httpparser)\<close>

text \<open>
  A \<open>[]byte\<close> and a Go \<open>string\<close> are both a \<open>string\<close> here: a list of 8-bit
  characters.
\<close>

subsection \<open>Strings\<close>

definition CRLF :: string where
  "CRLF = [CHR 0x0D, CHR 0x0A]"

text \<open>\<open>bytes.HasPrefix\<close> and \<open>strings.HasPrefix\<close>.\<close>

definition HasPrefix :: "string \<Rightarrow> string \<Rightarrow> bool" where
  "HasPrefix s pre = (length s \<ge> length pre \<and> take (length pre) s = pre)"

definition TrimPrefix :: "string \<Rightarrow> string \<Rightarrow> string" where
  "TrimPrefix s pre = (if HasPrefix s pre then drop (length pre) s else s)"

text \<open>
  \<open>strings.TrimSpace\<close>, for the white space of ASCII (tab, line feed, vertical tab,
  form feed, carriage return, space); the white space beyond ASCII is not treated.
\<close>

definition isSpace :: "char \<Rightarrow> bool" where
  "isSpace c =
     (c = CHR 0x09 \<or> c = CHR 0x0A \<or> c = CHR 0x0B \<or> c = CHR 0x0C \<or> c = CHR 0x0D \<or> c = CHR '' '')"

definition TrimSpace :: "string \<Rightarrow> string" where
  "TrimSpace s = rev (dropWhile isSpace (rev (dropWhile isSpace s)))"

text \<open>\<open>strings.Split\<close> with a separator of one character.\<close>

fun Split :: "string \<Rightarrow> char \<Rightarrow> string list" where
  "Split [] sep = [[]]"
| "Split (c # cs) sep =
     (if c = sep then [] # Split cs sep
      else (case Split cs sep of [] \<Rightarrow> [[c]] | l # ls \<Rightarrow> (c # l) # ls))"

text \<open>\<open>strconv.Itoa\<close>, and \<open>%d\<close> of \<open>fmt.Sprintf\<close>: a number in decimal.\<close>

definition digit_char :: "nat \<Rightarrow> char" where
  "digit_char d = ''0123456789'' ! d"

fun natToDec :: "nat \<Rightarrow> string" where
  "natToDec n = (if n < 10 then [digit_char n] else natToDec (n div 10) @ [digit_char (n mod 10)])"

declare natToDec.simps [simp del]

definition Itoa :: "int \<Rightarrow> string" where
  "Itoa i = (if i < 0 then CHR ''-'' # natToDec (nat (- i)) else natToDec (nat i))"

subsection \<open>The demultiplexing predicate\<close>

definition OutgoingType :: "string \<Rightarrow> bool" where
  "OutgoingType buffer =
     (HasPrefix buffer ''HTTP/'' \<or>
      HasPrefix buffer ''GET '' \<or>
      HasPrefix buffer ''POST '' \<or>
      HasPrefix buffer ''PUT '' \<or>
      HasPrefix buffer ''PATCH '' \<or>
      HasPrefix buffer ''DELETE '' \<or>
      HasPrefix buffer ''OPTIONS '' \<or>
      HasPrefix buffer ''HEAD '')"

subsection \<open>Connections, errors and the log\<close>

text \<open>
  The values of Go's \<open>error\<close> that the parser tells apart; \<open>nil\<close> is \<open>None\<close> of
  \<open>go_error option\<close>.
\<close>

datatype go_error = EOF | Timeout | OtherError string

text \<open>
  Modelled from the spec: \<open>util.ReadBytes\<close> is not among the sources. A
  \<open>net.Conn\<close> is given by what its peer will do: \<open>incoming\<close> lists the result of each
  coming \<open>util.ReadBytes\<close> (the bytes and the error; a connection with nothing left
  yields \<open>io.EOF\<close>), \<open>writeResults\<close> the result of each coming \<open>Write\<close> (all succeed
  once the list is used up), and \<open>outgoing\<close> collects what has been written.
\<close>

record Conn =
  incoming :: "(string \<times> go_error option) list"
  writeResults :: "go_error option list"
  outgoing :: "string list"

definition ReadBytes :: "Conn \<Rightarrow> (string \<times> go_error option) \<times> Conn" where
  "ReadBytes c =
     (case incoming c of
        [] \<Rightarrow> (([], Some EOF), c)
      | r # rs \<Rightarrow> (r, c\<lparr> incoming := rs \<rparr>))"

definition Write :: "Conn \<Rightarrow> string \<Rightarrow> go_error option \<times> Conn" where
  "Write c b =
     (case writeResults c of
        [] \<Rightarrow> (None, c\<lparr> outgoing := outgoing c @ [b] \<rparr>)
      | None # rs \<Rightarrow> (None, c\<lparr> writeResults := rs, outgoing := outgoing c @ [b] \<rparr>)
      | Some e # rs \<Rightarrow> (Some e, c\<lparr> writeResults := rs \<rparr>))"

text \<open>
  Modelled from the spec: the declarations of \<open>models.Mock\<close>, \<open>models.HttpReq\<close> and
  \<open>models.HttpResp\<close> are not among the sources. The fields are the ones
  \<open>ParseFinalHttp\<close> fills and \<open>decodeOutgoingHttp\<close> reads (the spec: method, proto
  major and minor, URL, header map, body, host, url-params; status, header, body; the
  two timestamps). The fields of \<open>Spec\<close> stand in \<open>Mock\<close> itself, and the header and
  body of request and response carry the prefix \<open>Req\<close> and \<open>Resp\<close>.
\<close>

record HttpReq =
  Method :: string
  ProtoMajor :: int
  ProtoMinor :: int
  URL :: string
  ReqHeader :: "(string \<times> string) list"
  ReqBody :: string
  URLParams :: "(string \<times> string) list"
  Host :: string

record HttpResp =
  StatusCode :: int
  RespHeader :: "(string \<times> string) list"
  RespBody :: string

record Mock =
  Version :: string
  Name :: string
  Kind :: string
  Metadata :: "(string \<times> string) list"
  HttpReq :: HttpReq
  HttpResp :: HttpResp
  Created :: int
  ReqTimestampMock :: int
  ResTimestampMock :: int

text \<open>
  What the parser acts on: the connection of the user application, the connection of
  the destination, the log, and the mocks handed to \<open>h.AppendMocks\<close>.
\<close>

record World =
  clientConn :: Conn
  destConn :: Conn
  logs :: "(level \<times> string) list"
  mocks :: "Mock list"

definition logw :: "level \<Rightarrow> string \<Rightarrow> World \<Rightarrow> World" where
  "logw l m w = w\<lparr> logs := logs w @ [(l, m)] \<rparr>"

definition readClient :: "World \<Rightarrow> (string \<times> go_error option) \<times> World" where
  "readClient w = (let (r, c) = ReadBytes (clientConn w) in (r, w\<lparr> clientConn := c \<rparr>))"

definition readDest :: "World \<Rightarrow> (string \<times> go_error option) \<times> World" where
  "readDest w = (let (r, c) = ReadBytes (destConn w) in (r, w\<lparr> destConn := c \<rparr>))"

definition writeClient :: "string \<Rightarrow> World \<Rightarrow> go_error option \<times> World" where
  "writeClient b w = (let (e, c) = Write (clientConn w) b in (e, w\<lparr> clientConn := c \<rparr>))"

definition writeDest :: "string \<Rightarrow> World \<Rightarrow> go_error option \<times> World" where
  "writeDest b w = (let (e, c) = Write (destConn w) b in (e, w\<lparr> destConn := c \<rparr>))"

subsection \<open>What the parser takes from other packages\<close>

text \<open>
  An \<open>http.Header\<close> is a Go map from a name to a list of values. It is the list of its
  entries, in the order a \<open>range\<close> loop visits them (Go leaves that order open); a value
  list \<open>[]\<close> is an empty slice that is not \<open>nil\<close>. A body (\<open>io.ReadCloser\<close>) is the
  bytes it will deliver and the error that ends them, \<open>None\<close> for a clean end.
\<close>

type_synonym Header = "(string \<times> string list) list"

type_synonym reader = "string \<times> go_error option"

text \<open>The fields of \<open>http.Request\<close> and \<open>http.Response\<close> that the parser reads.\<close>

record Request =
  req_Method :: string
  req_ProtoMajor :: int
  req_ProtoMinor :: int
  req_URL :: string
  req_Header :: Header
  req_Host :: string
  req_Body :: "reader option"

record Response =
  resp_StatusCode :: int
  resp_Header :: Header
  resp_Body :: "reader option"

text \<open>The outcome of \<open>gw.Write\<close> followed by \<open>gw.Close\<close> on a gzip writer.\<close>

datatype gzip_result = WriteFailed go_error | CloseFailed go_error | Compressed string

text \<open>
  The constants and functions of the standard library and of packages that are not
  among the sources are parameters: \<open>models.PassThroughHosts\<close>, \<open>models.HTTP\<close>,
  \<open>models.HttpClient\<close>, \<open>models.GetVersion\<close>, \<open>http.StatusText\<close>,
  \<open>pkg.ToHttpHeader\<close>, \<open>pkg.ToYamlHttpHeader\<close>, \<open>pkg.UrlParams\<close>,
  \<open>time.Now().Unix()\<close>, the gzip writer, the gzip reader (\<open>Inl\<close> when
  \<open>gzip.NewReader\<close> fails, else the reader of the decompressed bytes),
  \<open>http.ReadRequest\<close>, \<open>http.ReadResponse\<close> and \<open>h.AppendMocks\<close>. \<open>bufioFill\<close> is
  the number of bytes a fresh \<open>bufio.Reader\<close> pulls out of a body when it is asked to
  peek at two bytes.
\<close>

record Env =
  PassThroughHosts :: "string list"
  HTTP :: string
  HttpClient :: string
  GetVersion :: string
  StatusText :: "int \<Rightarrow> string"
  ToHttpHeader :: "(string \<times> string) list \<Rightarrow> Header"
  ToYamlHttpHeader :: "Header \<Rightarrow> (string \<times> string) list"
  UrlParams :: "Request \<Rightarrow> (string \<times> string) list"
  timeNowUnix :: int
  gzipCompress :: "string \<Rightarrow> gzip_result"
  gunzip :: "reader \<Rightarrow> go_error + reader"
  bufioFill :: "reader \<Rightarrow> nat"
  ReadRequest :: "string \<Rightarrow> go_error + Request"
  ReadResponse :: "string \<Rightarrow> Request \<Rightarrow> go_error + Response"
  AppendMocks :: "Mock \<Rightarrow> go_error option"

text \<open>The loop over \<open>models.PassThroughHosts\<close> (lines 494--499 and 798--803).\<close>

fun isPassthroughHost :: "string \<Rightarrow> string list \<Rightarrow> bool \<Rightarrow> bool" where
  "isPassthroughHost reqHost [] passthroughHost = passthroughHost"
| "isPassthroughHost reqHost (host # hosts) passthroughHost =
     isPassthroughHost reqHost hosts (if reqHost = host then True else passthroughHost)"

subsection \<open>Record mode: the Expect header\<close>

text \<open>Lines 594--601: the value of the first line that starts with \<open>Expect:\<close>.\<close>

definition expectHeaderOf :: "string \<Rightarrow> string" where
  "expectHeaderOf finalReq =
     (case find (\<lambda>line. HasPrefix line ''Expect:'') (Split finalReq (CHR 0x0A)) of
        None \<Rightarrow> []
      | Some line \<Rightarrow> TrimSpace (TrimPrefix line ''Expect:''))"

definition continue100 :: string where
  "continue100 = ''HTTP/1.1 100 Continue'' @ CRLF @ CRLF"

text \<open>
  Lines 593--636 of \<open>encodeOutgoingHttp\<close>, the head of the loop body. \<open>Inl (err, w)\<close>
  means that \<open>encodeOutgoingHttp\<close> returns \<open>err\<close> there; \<open>Inr (finalReq, w)\<close> means
  that control goes on to line 638. The variable \<open>err\<close> is the one of the source: each
  call assigns it, and \<open>return err\<close> returns what it holds.
\<close>

definition encodeExpect :: "string \<Rightarrow> World \<Rightarrow> (go_error option \<times> World) + (string \<times> World)" where
  "encodeExpect finalReq w0 =
     (if expectHeaderOf finalReq = ''100-continue'' then
        let ((resp, err), w1) = readDest w0 in
        if err \<noteq> None
        then Inl (err, logw Error ''failed to read the response message from the server after 100-continue request'' w1)
        else
          let (err, w2) = writeClient resp w1 in
          if err \<noteq> None
          then Inl (err, logw Error ''failed to write response message to the user client'' w2)
          else
            let w3 = logw Debug ''This is the response from the server after the expect header'' w2 in
            if resp \<noteq> continue100
            then Inl (err, logw Error ''failed to get the 100 continue response from the user client'' w3)
            else
              let ((request, err), w4) = readClient w3 in
              if err \<noteq> None
              then Inl (err, logw Error ''failed to read the request message from the user client'' w4)
              else
                let (err, w5) = writeDest request w4 in
                if err \<noteq> None
                then Inl (err, logw Error ''failed to write request message to the destination server'' w5)
                else Inr (finalReq @ request, w5)
      else Inr (finalReq, w0))"

text \<open>
  \<open>encodeOutgoingHttp\<close> from its entry to line 636 of the first pass of its loop. What
  follows (lines 638--736: framing the request, reading and relaying the response,
  \<open>ParseFinalHttp\<close>, and the later passes of the loop) is the parameter \<open>rest\<close>. The
  deferred \<open>destConn.Close()\<close> is left out.
\<close>

definition encodeOutgoingHttp ::
  "(string \<Rightarrow> World \<Rightarrow> go_error option \<times> World) \<Rightarrow> string \<Rightarrow> World \<Rightarrow> go_error option \<times> World" where
  "encodeOutgoingHttp rest request w0 =
     (let (err, w1) = writeDest request w0 in
      if err \<noteq> None
      then (err, logw Error ''failed to write request message to the destination server'' w1)
      else
        let w2 = logw Debug ''This is the initial request'' w1;
            finalReq = [] @ request
        in case encodeExpect finalReq w2 of
             Inl r \<Rightarrow> r
           | Inr (finalReq', w3) \<Rightarrow> rest finalReq' w3)"

subsection \<open>Replay mode: answering from a mock, or passing through\<close>

text \<open>
  How one pass of the loop of \<open>decodeOutgoingHttp\<close> ends: the function returns, it
  goes on to read the next request (line 560), or it panics.
\<close>

datatype outcome = Return | NextRequest | Panic

definition statusLine :: "Env \<Rightarrow> Mock \<Rightarrow> string" where
  "statusLine env stub =
     ''HTTP/'' @ Itoa (ProtoMajor (HttpReq stub)) @ ''.'' @ Itoa (ProtoMinor (HttpReq stub)) @
     '' '' @ Itoa (StatusCode (HttpResp stub)) @ '' '' @
     StatusText env (StatusCode (HttpResp stub)) @ CRLF"

text \<open>
  Lines 541--549: the inner loop over the values of one header, and the outer loop over
  the header; \<open>headers\<close> is the string built so far.
\<close>

fun valueLines :: "string \<Rightarrow> string list \<Rightarrow> string \<Rightarrow> string" where
  "valueLines key [] headers = headers"
| "valueLines key (v # vals) headers =
     valueLines key vals (headers @ (key @ '': '' @ v @ CRLF))"

fun headerLines :: "string \<Rightarrow> Header \<Rightarrow> string \<Rightarrow> string" where
  "headerLines respBody [] headers = headers"
| "headerLines respBody ((key, vals) # header) headers =
     (let vals' = (if key = ''Content-Length'' then [Itoa (int (length respBody))] else vals)
      in headerLines respBody header (valueLines key vals' headers))"

text \<open>
  Lines 510--558: the response to a matched mock. Indexing the empty value list of
  \<open>Content-Encoding\<close> panics.
\<close>

definition sendMock :: "Env \<Rightarrow> Mock \<Rightarrow> World \<Rightarrow> outcome \<times> World" where
  "sendMock env stub w0 =
     (let statusLine = statusLine env stub;
          body = RespBody (HttpResp stub);
          header = ToHttpHeader env (RespHeader (HttpResp stub));
          respond = (\<lambda>respBody w1.
            let headers = headerLines respBody header [];
                responseString = statusLine @ headers @ CRLF @ [] @ respBody;
                w2 = logw Debug ''Mock Response sending back to client'' w1;
                (err, w3) = writeClient responseString w2
            in if err \<noteq> None
               then (Return, logw Error ''failed to write the mock output to the user application'' w3)
               else (NextRequest, w3))
      in case map_of header ''Content-Encoding'' of
           None \<Rightarrow> respond body w0
         | Some [] \<Rightarrow> (Panic, w0)
         | Some (v # vs) \<Rightarrow>
             if v = ''gzip'' then
               (case gzipCompress env body of
                  WriteFailed e \<Rightarrow> (Return, logw Error ''failed to compress the response body'' w0)
                | CloseFailed e \<Rightarrow> (Return, logw Error ''failed to close the gzip writer'' w0)
                | Compressed compressedBuffer \<Rightarrow>
                    respond compressedBuffer (logw Debug ''the length of the response body'' w0))
             else respond body w0)"

text \<open>
  Modelled from the spec: \<open>util.Passthrough\<close> is not among the sources. By the spec a
  pass-through forwards the request to the real destination and relays the response to
  the client unmodified. The first error met is returned.
\<close>

fun writeAll :: "string list \<Rightarrow> World \<Rightarrow> go_error option \<times> World" where
  "writeAll [] w = (None, w)"
| "writeAll (b # bs) w =
     (let (err, w1) = writeDest b w in if err \<noteq> None then (err, w1) else writeAll bs w1)"

definition Passthrough :: "string list \<Rightarrow> World \<Rightarrow> go_error option \<times> World" where
  "Passthrough requestBuffer w0 =
     (let (err, w1) = writeAll requestBuffer w0 in
      if err \<noteq> None then (err, w1)
      else
        let ((buffer, err), w2) = readDest w1 in
        if err \<noteq> None then (err, w2)
        else writeClient buffer w2)"

definition missMessage :: string where
  "missMessage = ''Didn't match any prexisting http mock''"

text \<open>Lines 493--508: no mock matched.\<close>

definition passMiss :: "Env \<Rightarrow> string \<Rightarrow> string \<Rightarrow> World \<Rightarrow> outcome \<times> World" where
  "passMiss env reqHost requestBuffer w0 =
     (let passthroughHost = isPassthroughHost reqHost (PassThroughHosts env) False;
          w1 = (if \<not> passthroughHost then logw Error missMessage w0 else w0);
          (err, w2) = Passthrough [requestBuffer] w1;
          w3 = (if err \<noteq> None then logw Error ''failed to passthrough http request'' w2 else w2)
      in (Return, w3))"

text \<open>
  Lines 487--558 of \<open>decodeOutgoingHttp\<close>: what is done with the answer
  \<open>(isMatched, stub, err)\<close> of \<open>match\<close>, which is not among the sources, for the
  request \<open>requestBuffer\<close> whose host is \<open>reqHost\<close>.
\<close>

definition decodeMatched ::
  "Env \<Rightarrow> string \<Rightarrow> string \<Rightarrow> bool \<times> Mock \<times> go_error option \<Rightarrow> World \<Rightarrow> outcome \<times> World" where
  "decodeMatched env reqHost requestBuffer m w0 =
     (let (isMatched, stub, err) = m;
          w1 = (if err \<noteq> None then logw Error ''error while matching http mocks'' w0 else w0)
      in if \<not> isMatched then passMiss env reqHost requestBuffer w1
         else sendMock env stub w1)"




subsection \<open>Record mode: storing the exchange\<close>

text \<open>
  \<open>Header.Get\<close> and \<open>Header.Set\<close>, for the two names the parser uses, which are in
  canonical form already.
\<close>

definition HeaderGet :: "Header \<Rightarrow> string \<Rightarrow> string" where
  "HeaderGet h key = (case map_of h key of None \<Rightarrow> [] | Some [] \<Rightarrow> [] | Some (v # vs) \<Rightarrow> v)"

definition HeaderSet :: "Header \<Rightarrow> string \<Rightarrow> string \<Rightarrow> Header" where
  "HeaderSet h key v =
     (if key \<in> fst ` set h
      then map (\<lambda>(k, vs). if k = key then (k, [v]) else (k, vs)) h
      else h @ [(key, [v])])"

definition ReadAll :: "reader \<Rightarrow> string \<times> go_error option" where
  "ReadAll r = r"

text \<open>\<open>Peek\<close> of a fresh buffered reader over \<open>r\<close>.\<close>

definition Peek :: "nat \<Rightarrow> reader \<Rightarrow> string \<times> go_error option" where
  "Peek n r =
     (if n \<le> length (fst r) then (take n (fst r), None)
      else (fst r, Some (case snd r of None \<Rightarrow> EOF | Some e \<Rightarrow> e)))"

definition checkIfGzipped :: "reader \<Rightarrow> bool" where
  "checkIfGzipped check =
     (let (peekedBytes, err) = Peek 2 check in
      if err \<noteq> None \<and> err \<noteq> Some EOF then False
      else if length peekedBytes < 2 then False
      else if peekedBytes ! 0 = CHR 0x1f \<and> peekedBytes ! 1 = CHR 0x8b then True
      else False)"

text \<open>
  Lines 769--782: the reader the response body is read from. With
  \<open>Content-Encoding: gzip\<close> the body is peeked at through a buffered reader. When it
  starts with the two gzip magic bytes, the gzip reader over that buffered reader
  replaces the body. Otherwise the body stays, and is read on from where the buffered
  reader stopped pulling: the bytes it pulled are not read again.
\<close>

definition responseBodyReader ::
  "Env \<Rightarrow> Response \<Rightarrow> reader \<Rightarrow> World \<Rightarrow> (go_error option \<times> World) + (reader \<times> World)" where
  "responseBodyReader env respParsed check w0 =
     (if HeaderGet (resp_Header respParsed) ''Content-Encoding'' = ''gzip''
      then
        let ok = checkIfGzipped check;
            w1 = logw Debug [] (logw Debug ''The body is gzip?'' w0)
        in if ok
           then (case gunzip env check of
                   Inl err \<Rightarrow> Inl (Some err, logw Error ''failed to create a gzip reader'' w1)
                 | Inr gzipReader \<Rightarrow> Inr (gzipReader, w1))
           else Inr ((drop (bufioFill env check) (fst check), snd check), w1)
      else Inr (check, w0))"

text \<open>Lines 765--791: the body to store and the header with its new length.\<close>

definition readResponseBody ::
  "Env \<Rightarrow> Response \<Rightarrow> World \<Rightarrow> (go_error option \<times> World) + (string \<times> Header \<times> World)" where
  "readResponseBody env respParsed w0 =
     (case resp_Body respParsed of
        None \<Rightarrow> Inr ([], resp_Header respParsed, w0)
      | Some check \<Rightarrow>
          (case responseBodyReader env respParsed check w0 of
             Inl r \<Rightarrow> Inl r
           | Inr (body, w2) \<Rightarrow>
               let (respBody, err) = ReadAll body in
               if err \<noteq> None
               then Inl (err, logw Error ''failed to read the the http response body'' w2)
               else Inr (respBody,
                         HeaderSet (resp_Header respParsed) ''Content-Length''
                           (Itoa (int (length respBody))),
                         logw Debug ''This is the response body'' w2)))"

text \<open>
  \<open>ParseFinalHttp\<close>. The goroutine that calls \<open>h.AppendMocks\<close> is run at once; the
  mock it hands over is added to \<open>mocks\<close>.
\<close>

definition ParseFinalHttp ::
  "Env \<Rightarrow> string \<Rightarrow> string \<Rightarrow> int \<Rightarrow> int \<Rightarrow> World \<Rightarrow> go_error option \<times> World" where
  "ParseFinalHttp env finalReq finalResp reqTimestampMock resTimestampcMock w0 =
     (case ReadRequest env finalReq of
        Inl err \<Rightarrow> (Some err, logw Error ''failed to parse the http request message'' w0)
      | Inr req \<Rightarrow>
          let (reqBody, err) = (case req_Body req of None \<Rightarrow> ([], None) | Some rd \<Rightarrow> ReadAll rd) in
          if err \<noteq> None
          then (err, logw Error ''failed to read the http request body'' w0)
          else
            (case ReadResponse env finalResp req of
               Inl err \<Rightarrow> (Some err, logw Error ''failed to parse the http response message'' w0)
             | Inr respParsed \<Rightarrow>
                 (case readResponseBody env respParsed w0 of
                    Inl r \<Rightarrow> r
                  | Inr (respBody, respHeader, w1) \<Rightarrow>
                      let meta = [(''name'', ''Http''), (''type'', HttpClient env),
                                  (''operation'', req_Method req)];
                          passthroughHost = isPassthroughHost (req_Host req) (PassThroughHosts env) False
                      in if \<not> passthroughHost
                         then
                           let mock = \<lparr> Version = GetVersion env, Name = ''mocks'', Kind = HTTP env,
                                 Metadata = meta,
                                 HttpReq = \<lparr> Method = req_Method req,
                                   ProtoMajor = req_ProtoMajor req, ProtoMinor = req_ProtoMinor req,
                                   URL = req_URL req,
                                   ReqHeader = ToYamlHttpHeader env (req_Header req),
                                   ReqBody = reqBody, URLParams = UrlParams env req,
                                   Host = req_Host req \<rparr>,
                                 HttpResp = \<lparr> StatusCode = resp_StatusCode respParsed,
                                   RespHeader = ToYamlHttpHeader env respHeader,
                                   RespBody = respBody \<rparr>,
                                 Created = timeNowUnix env,
                                 ReqTimestampMock = reqTimestampMock,
                                 ResTimestampMock = resTimestampcMock \<rparr>;
                               w2 = w1\<lparr> mocks := mocks w1 @ [mock] \<rparr>
                           in (None, if AppendMocks env mock \<noteq> None
                                     then logw Error ''failed to store the http mock'' w2 else w2)
                         else (None, w1))))"

text \<open>The body starts with the two magic bytes of gzip.\<close>

definition gzipMagic :: "string \<Rightarrow> bool" where
  "gzipMagic content = (2 \<le> length content \<and> content ! 0 = CHR 0x1f \<and> content ! 1 = CHR 0x8b)"

subsection \<open>Concrete requests, responses and parameters\<close>

definition idle_conn :: Conn where
  "idle_conn = \<lparr> incoming = [], writeResults = [], outgoing = [] \<rparr>"

definition world_idle :: World where
  "world_idle = \<lparr> clientConn = idle_conn, destConn = idle_conn, logs = [], mocks = [] \<rparr>"

text \<open>A request that expects \<open>100 Continue\<close>, and a destination that answers 417.\<close>

definition request_expect :: string where
  "request_expect =
     ''POST /upload HTTP/1.1'' @ CRLF @ ''Host: example.com'' @ CRLF @
     ''Expect: 100-continue'' @ CRLF @ ''Content-Length: 5'' @ CRLF @ CRLF"

definition reply_417 :: string where
  "reply_417 = ''HTTP/1.1 417 Expectation Failed'' @ CRLF @ CRLF"

definition world_417 :: World where
  "world_417 = world_idle\<lparr> destConn := idle_conn\<lparr> incoming := [(reply_417, None)] \<rparr> \<rparr>"

text \<open>
  Stand-ins for gzip at the examples: compressing puts the two magic bytes in front,
  decompressing takes them off and refuses bytes that do not start with them, with the
  error of \<open>gzip.NewReader\<close>.
\<close>

definition gzipMagicBytes :: string where
  "gzipMagicBytes = [CHR 0x1f, CHR 0x8b]"

definition standin_gzip :: "string \<Rightarrow> gzip_result" where
  "standin_gzip s = Compressed (gzipMagicBytes @ s)"

definition standin_gunzip :: "reader \<Rightarrow> go_error + reader" where
  "standin_gunzip r =
     (if gzipMagic (fst r) then Inr (drop 2 (fst r), snd r)
      else Inl (OtherError ''gzip: invalid header''))"

fun joinComma :: "string list \<Rightarrow> string" where
  "joinComma [] = []"
| "joinComma [v] = v"
| "joinComma (v # u # vs) = v @ '','' @ joinComma (u # vs)"

definition request_post :: string where
  "request_post =
     ''POST /students HTTP/1.1'' @ CRLF @ ''Host: db.example.com'' @ CRLF @
     ''Content-Length: 2'' @ CRLF @ CRLF @ ''{}''"

definition parsed_post :: Request where
  "parsed_post =
     \<lparr> req_Method = ''POST'', req_ProtoMajor = 1, req_ProtoMinor = 1, req_URL = ''/students'',
       req_Header = [(''Content-Length'', [''2''])], req_Host = ''db.example.com'',
       req_Body = Some (''{}'', None) \<rparr>"

text \<open>A response whose body is gzip data (for the stand-in), and its parsed form.\<close>

definition response_gzip :: string where
  "response_gzip =
     ''HTTP/1.1 201 Created'' @ CRLF @ ''Content-Encoding: gzip'' @ CRLF @
     ''Content-Length: 4'' @ CRLF @ CRLF @ gzipMagicBytes @ ''[]''"

definition parsed_gzip :: Response where
  "parsed_gzip =
     \<lparr> resp_StatusCode = 201,
       resp_Header = [(''Content-Encoding'', [''gzip'']), (''Content-Length'', [''4''])],
       resp_Body = Some (gzipMagicBytes @ ''[]'', None) \<rparr>"

text \<open>A response that announces gzip and carries plain text, and its parsed form.\<close>

definition response_mislabelled :: string where
  "response_mislabelled =
     ''HTTP/1.1 200 OK'' @ CRLF @ ''Content-Encoding: gzip'' @ CRLF @
     ''Content-Length: 5'' @ CRLF @ CRLF @ ''hello''"

definition parsed_mislabelled :: Response where
  "parsed_mislabelled =
     \<lparr> resp_StatusCode = 200,
       resp_Header = [(''Content-Encoding'', [''gzip'']), (''Content-Length'', [''5''])],
       resp_Body = Some (''hello'', None) \<rparr>"

definition env_example :: Env where
  "env_example =
     \<lparr> PassThroughHosts = [''localhost''],
       HTTP = ''Http'',
       HttpClient = ''HTTP_CLIENT'',
       GetVersion = ''api.keploy.io/v1beta1'',
       StatusText = (\<lambda>code. if code = 200 then ''OK'' else if code = 201 then ''Created'' else []),
       ToHttpHeader = map (\<lambda>(k, v). (k, [v])),
       ToYamlHttpHeader = map (\<lambda>(k, vs). (k, joinComma vs)),
       UrlParams = (\<lambda>req. []),
       timeNowUnix = 0,
       gzipCompress = standin_gzip,
       gunzip = standin_gunzip,
       bufioFill = (\<lambda>r. min 4096 (length (fst r))),
       ReadRequest = (\<lambda>b. if b = request_post then Inr parsed_post
                           else Inl (OtherError ''malformed HTTP request'')),
       ReadResponse = (\<lambda>b req. if b = response_gzip then Inr parsed_gzip
                               else if b = response_mislabelled then Inr parsed_mislabelled
                               else Inl (OtherError ''malformed HTTP response'')),
       AppendMocks = (\<lambda>m. None) \<rparr>"

text \<open>A mock whose recorded response was gzip-encoded, and the wire response to it.\<close>

definition stub_gzip :: Mock where
  "stub_gzip =
     \<lparr> Version = ''api.keploy.io/v1beta1'', Name = ''mocks'', Kind = ''Http'', Metadata = [],
       HttpReq = \<lparr> Method = ''POST'', ProtoMajor = 1, ProtoMinor = 1, URL = ''/students'',
                   ReqHeader = [], ReqBody = ''{}'', URLParams = [], Host = ''db.example.com'' \<rparr>,
       HttpResp = \<lparr> StatusCode = 201,
                    RespHeader = [(''Content-Encoding'', ''gzip''), (''Content-Length'', ''2'')],
                    RespBody = ''[]'' \<rparr>,
       Created = 0, ReqTimestampMock = 0, ResTimestampMock = 0 \<rparr>"


text \<open>A destination that answers the forwarded request.\<close>

definition reply_ok :: string where
  "reply_ok = ''HTTP/1.1 200 OK'' @ CRLF @ ''Content-Length: 2'' @ CRLF @ CRLF @ ''[]''"

definition world_upstream :: World where
  "world_upstream = world_idle\<lparr> destConn := idle_conn\<lparr> incoming := [(reply_ok, None)] \<rparr> \<rparr>"

section \<open>Properties of the connection tracker\<close>

lemmas tracker_defs = NewTracker_def AddDataEvent_def IsComplete_def IsComplete_counted_def
  IsComplete_idle_def Let_def logmsg_def UpdateTimestamps_def incRecordTestCount_def
  decRecordTestCount_def resetConnection_def verifyRequestData_def verifyResponseData_def
  fourSeconds_def

lemma sint_dec:
  assumes "0 < sint (c::32 word)"
  shows "sint (c - 1) = sint c - 1"
proof -
  have "sint c < 2 ^ 31" using sint_lt [of c] by simp
  with assms have "signed_take_bit 31 (sint c - 1) = sint c - 1"
    by (intro signed_take_bit_int_eq_self) simp_all
  then show ?thesis by (simp add: sint_word_ariths)
qed

lemma sint_inc: "sint ((c::32 word) + 1) \<le> sint c + 1"
proof -
  have "- (2 ^ 31) \<le> sint c" using sint_ge [of c] by simp
  then have "signed_take_bit 31 (sint c + 1) \<le> sint c + 1"
    by (simp add: signed_take_bit_int_less_eq_self_iff)
  then show ?thesis by (simp add: sint_word_ariths)
qed

lemma IsComplete_counted_eq:
  "0 < sint (recordTestCountAtomic conn) \<Longrightarrow> IsComplete now conn = IsComplete_counted conn"
  by (simp add: IsComplete_def)

lemma IsComplete_idle_eq:
  "\<not> 0 < sint (recordTestCountAtomic conn) \<Longrightarrow> gotResponseDataEvent conn \<Longrightarrow>
   fourSeconds \<le> now - lastActivityTimestamp conn \<Longrightarrow> IsComplete now conn = IsComplete_idle conn"
  by (simp add: IsComplete_def)


subsection \<open>Collecting a counted exchange\<close>




text \<open>
  C10. When the counter is positive and all four byte-count queues hold an entry, the
  boolean that \<open>IsComplete\<close> returns is the conjunction of the two byte-count
  comparisons, whatever the buffer queues hold; and when a buffer queue is empty the two
  returned buffers are empty.
\<close>

theorem IsComplete_counted_ready:
  assumes "0 < sint (recordTestCountAtomic conn)"
    and "currentRecvBytesQueue conn \<noteq> []" and "totalRecvBytesQueue conn \<noteq> []"
    and "currentSentBytesQueue conn \<noteq> []" and "totalSentBytesQueue conn \<noteq> []"
  shows "fst (fst (IsComplete now conn)) =
           (hd (currentRecvBytesQueue conn) = hd (totalRecvBytesQueue conn) \<and>
            hd (currentSentBytesQueue conn) = hd (totalSentBytesQueue conn)) \<and>
         (currentRecvBufQueue conn = [] \<or> currentSentBufQueue conn = [] \<longrightarrow>
            snd (fst (IsComplete now conn)) = ([], []))"
proof -
  have eq: "IsComplete now conn = IsComplete_counted conn"
    using assms(1) by (rule IsComplete_counted_eq)
  have "fst (fst (IsComplete_counted conn)) =
           (hd (currentRecvBytesQueue conn) = hd (totalRecvBytesQueue conn) \<and>
            hd (currentSentBytesQueue conn) = hd (totalSentBytesQueue conn))"
    using assms(2-5)
    by (simp add: IsComplete_counted_def Let_def logmsg_def decRecordTestCount_def
        verifyRequestData_def verifyResponseData_def split: prod.splits)
  moreover have "snd (fst (IsComplete_counted conn)) = ([], [])"
    if "currentRecvBufQueue conn = [] \<or> currentSentBufQueue conn = []"
    using that
    by (auto simp add: IsComplete_counted_def Let_def logmsg_def decRecordTestCount_def
        split: prod.splits)
  ultimately show ?thesis by (simp add: eq)
qed

text \<open>
  With both buffer queues empty and matching byte counts, \<open>IsComplete\<close> returns true
  together with two empty buffers.
\<close>

theorem IsComplete_counted_ready_witness:
  "0 < sint (recordTestCountAtomic tracker_no_buffers) \<and>
   currentRecvBufQueue tracker_no_buffers = [] \<and>
   currentSentBufQueue tracker_no_buffers = [] \<and>
   fst (IsComplete 0 tracker_no_buffers) = (True, [], [])"
proof -
  have h: "0 < sint (recordTestCountAtomic tracker_no_buffers)"
    "currentRecvBytesQueue tracker_no_buffers \<noteq> []" "totalRecvBytesQueue tracker_no_buffers \<noteq> []"
    "currentSentBytesQueue tracker_no_buffers \<noteq> []" "totalSentBytesQueue tracker_no_buffers \<noteq> []"
    by (simp_all add: tracker_no_buffers_def NewTracker_def)
  have e: "currentRecvBufQueue tracker_no_buffers = []" "currentSentBufQueue tracker_no_buffers = []"
    by (simp_all add: tracker_no_buffers_def NewTracker_def)
  have v: "hd (currentRecvBytesQueue tracker_no_buffers) = hd (totalRecvBytesQueue tracker_no_buffers)"
    "hd (currentSentBytesQueue tracker_no_buffers) = hd (totalSentBytesQueue tracker_no_buffers)"
    by (simp_all add: tracker_no_buffers_def NewTracker_def)
  from IsComplete_counted_ready [OF h, of 0] e v
  have "fst (fst (IsComplete 0 tracker_no_buffers)) \<and>
        snd (fst (IsComplete 0 tracker_no_buffers)) = ([], [])"
    by simp
  then have "fst (IsComplete 0 tracker_no_buffers) = (True, [], [])"
    by (cases "fst (IsComplete 0 tracker_no_buffers)") simp
  with h(1) e show ?thesis by simp
qed

subsection \<open>The last exchange of a keep-alive chain\<close>

lemma run_last_exchange: "run 4 NewTracker trace_last_exchange = Some tracker_last_exchange"
  by (simp add: trace_last_exchange_def tracker_last_exchange_def ev1_def tracker_defs
      numeral_2_eq_2)

lemma run_split_request: "run 4 NewTracker trace_split_request = Some tracker_split_request"
  by (simp add: trace_split_request_def tracker_split_request_def ev1_def tracker_defs)

text \<open>
  C6 (as amended). When the counter is not positive, a response data event has been
  seen and at least four seconds have passed since the last activity, \<open>IsComplete\<close>
  looks at the receive side only. If both receive byte-count queues hold an entry it pops
  one from each; if the request buffer queue holds an entry too, it pops it, returns it
  with the current sent buffer as the response, and reports the exchange as valid exactly
  when the two receive byte counts agree. In the other cases it returns false and two
  empty buffers. In every case it resets the tracker: \<open>firstRequest\<close> true, both
  direction flags false, both byte counters 0 and both buffers empty; the sent queues
  and the counter stay as they are.
\<close>

theorem IsComplete_idle_result:
  assumes "\<not> 0 < sint (recordTestCountAtomic conn)"
    and "gotResponseDataEvent conn"
    and "fourSeconds \<le> now - lastActivityTimestamp conn"
  shows "case IsComplete now conn of ((ready, requestBuf, responseBuf), conn') \<Rightarrow>
           (if currentRecvBytesQueue conn \<noteq> [] \<and> totalRecvBytesQueue conn \<noteq> []
            then currentRecvBytesQueue conn' = tl (currentRecvBytesQueue conn) \<and>
                 totalRecvBytesQueue conn' = tl (totalRecvBytesQueue conn) \<and>
                 (if currentRecvBufQueue conn \<noteq> []
                  then ready = (hd (currentRecvBytesQueue conn) = hd (totalRecvBytesQueue conn)) \<and>
                       requestBuf = hd (currentRecvBufQueue conn) \<and>
                       responseBuf = SentBuf conn \<and>
                       currentRecvBufQueue conn' = tl (currentRecvBufQueue conn)
                  else \<not> ready \<and> requestBuf = [] \<and> responseBuf = [] \<and>
                       currentRecvBufQueue conn' = [])
            else \<not> ready \<and> requestBuf = [] \<and> responseBuf = [] \<and>
                 currentRecvBytesQueue conn' = currentRecvBytesQueue conn \<and>
                 totalRecvBytesQueue conn' = totalRecvBytesQueue conn \<and>
                 currentRecvBufQueue conn' = currentRecvBufQueue conn) \<and>
           firstRequest conn' \<and> \<not> gotResponseDataEvent conn' \<and> \<not> gotRequestDataEvent conn' \<and>
           recvBytes conn' = 0 \<and> sentBytes conn' = 0 \<and> SentBuf conn' = [] \<and> RecvBuf conn' = [] \<and>
           currentSentBytesQueue conn' = currentSentBytesQueue conn \<and>
           totalSentBytesQueue conn' = totalSentBytesQueue conn \<and>
           currentSentBufQueue conn' = currentSentBufQueue conn \<and>
           recordTestCountAtomic conn' = recordTestCountAtomic conn"
proof -
  have "IsComplete now conn = IsComplete_idle conn"
    using assms by (rule IsComplete_idle_eq)
  then show ?thesis
    by (auto simp add: IsComplete_idle_def Let_def logmsg_def resetConnection_def
        verifyRequestData_def split: prod.splits)
qed

text \<open>
  The theorem after one request and its response: five seconds later the call returns
  the request, the sent buffer as the response, and resets the tracker.
\<close>

theorem IsComplete_idle_result_witness:
  "run 4 NewTracker trace_last_exchange = Some tracker_last_exchange \<and>
   \<not> 0 < sint (recordTestCountAtomic tracker_last_exchange) \<and>
   gotResponseDataEvent tracker_last_exchange \<and>
   fourSeconds \<le> 5000000000 - lastActivityTimestamp tracker_last_exchange \<and>
   fst (IsComplete 5000000000 tracker_last_exchange) = (True, [7], [7]) \<and>
   firstRequest (snd (IsComplete 5000000000 tracker_last_exchange)) \<and>
   SentBuf (snd (IsComplete 5000000000 tracker_last_exchange)) = []"
  using IsComplete_idle_result [of tracker_last_exchange 5000000000] run_last_exchange
  by (simp add: tracker_last_exchange_def tracker_defs)

text \<open>
  C6 as the spec words it fails after \<open>trace_split_request\<close>: the counter is 0, a
  response event has been seen, five seconds have passed and the sent buffer holds the
  byte 7, yet the call returns an empty response (and false), because the receive queues
  are empty.
\<close>

theorem IsComplete_idle_result_counterexample:
  "run 4 NewTracker trace_split_request = Some tracker_split_request \<and>
   recordTestCountAtomic tracker_split_request = 0 \<and>
   gotResponseDataEvent tracker_split_request \<and>
   fourSeconds \<le> 5000000000 - lastActivityTimestamp tracker_split_request \<and>
   SentBuf tracker_split_request = [7] \<and>
   fst (IsComplete 5000000000 tracker_split_request) = (False, [], [])"
  using run_split_request
  by (simp add: tracker_split_request_def tracker_defs)

subsection \<open>Queue lengths in reachable states\<close>

lemma queues_parallel_New: "queues_parallel NewTracker"
  by (simp add: queues_parallel_def NewTracker_def)

lemma queues_parallel_AddDataEvent:
  assumes "queues_parallel conn" "AddDataEvent E now event conn = Some conn'"
  shows "queues_parallel conn'"
proof (cases "Direction event")
  case EgressTraffic
  with assms show ?thesis
    by (auto simp add: AddDataEvent_def Let_def queues_parallel_def logmsg_def UpdateTimestamps_def
        split: if_splits)
next
  case IngressTraffic
  have "sint (recordTestCountAtomic conn + 1) \<le> int (length (currentSentBufQueue conn)) + 1"
    using sint_inc [of "recordTestCountAtomic conn"] assms(1) by (simp add: queues_parallel_def)
  with IngressTraffic assms show ?thesis
    by (auto simp add: AddDataEvent_def Let_def queues_parallel_def logmsg_def UpdateTimestamps_def
        incRecordTestCount_def split: if_splits)
next
  case OtherTraffic
  with assms show ?thesis
    by (auto simp add: AddDataEvent_def Let_def queues_parallel_def logmsg_def UpdateTimestamps_def)
qed

lemma queues_parallel_counted:
  assumes "queues_parallel conn" "0 < sint (recordTestCountAtomic conn)"
  shows "queues_parallel (snd (IsComplete_counted conn))"
  using assms sint_dec [of "recordTestCountAtomic conn"]
  by (auto simp add: IsComplete_counted_def Let_def queues_parallel_def logmsg_def
      decRecordTestCount_def split: prod.splits if_splits)

lemma queues_parallel_idle:
  assumes "queues_parallel conn"
  shows "queues_parallel (snd (IsComplete_idle conn))"
  using assms
  by (auto simp add: IsComplete_idle_def Let_def queues_parallel_def logmsg_def
      resetConnection_def split: prod.splits if_splits)

lemma queues_parallel_IsComplete:
  assumes "queues_parallel conn"
  shows "queues_parallel (snd (IsComplete now conn))"
  using assms queues_parallel_counted [of conn] queues_parallel_idle [of conn]
  by (simp add: IsComplete_def Let_def)

lemma queues_parallel_step:
  assumes "queues_parallel conn" "step E conn c = Some conn'"
  shows "queues_parallel conn'"
  using assms queues_parallel_AddDataEvent queues_parallel_IsComplete
  by (cases c) auto

lemma queues_parallel_run:
  assumes "queues_parallel conn" "run E conn cs = Some conn'"
  shows "queues_parallel conn'"
  using assms
proof (induction cs arbitrary: conn)
  case Nil
  then show ?case by simp
next
  case (Cons c cs)
  then show ?case
    by (auto split: option.splits dest: queues_parallel_step)
qed

text \<open>
  In a state that the calls produce from a new tracker, the guard on the buffer queues in
  the first branch of \<open>IsComplete\<close> holds whenever the guard on the byte-count queues
  does.
\<close>

lemma run_buffers_nonempty:
  assumes "run E NewTracker cs = Some conn"
    and "currentRecvBytesQueue conn \<noteq> []" and "currentSentBytesQueue conn \<noteq> []"
  shows "currentRecvBufQueue conn \<noteq> [] \<and> currentSentBufQueue conn \<noteq> []"
proof -
  have "queues_parallel conn"
    using queues_parallel_New assms(1) by (rule queues_parallel_run)
  then have "length (currentRecvBufQueue conn) = length (currentRecvBytesQueue conn)"
    and "length (currentSentBufQueue conn) = length (currentSentBytesQueue conn)"
    by (simp_all add: queues_parallel_def)
  with assms(2,3) show ?thesis by auto
qed

lemma run_two_responses: "run 4 NewTracker trace_two_responses = Some tracker_two_responses"
  by (simp add: trace_two_responses_def tracker_two_responses_def ev1_def tracker_defs
      eval_nat_numeral)

text \<open>
  C7 (as amended). In every state that a sequence of \<open>AddDataEvent\<close> and
  \<open>IsComplete\<close> calls produces from a new tracker, the pending request-buffer queue is
  as long as each of the two receive byte-count queues, the pending response-buffer queue
  is as long as each of the two sent byte-count queues, and the counter is at most the
  length of the pending response-buffer queue.
\<close>

theorem run_queue_lengths:
  assumes "run E NewTracker cs = Some conn"
  shows "length (currentRecvBufQueue conn) = length (currentRecvBytesQueue conn) \<and>
         length (totalRecvBytesQueue conn) = length (currentRecvBytesQueue conn) \<and>
         length (currentSentBufQueue conn) = length (currentSentBytesQueue conn) \<and>
         length (totalSentBytesQueue conn) = length (currentSentBytesQueue conn) \<and>
         sint (recordTestCountAtomic conn) \<le> int (length (currentSentBufQueue conn))"
  using queues_parallel_run [OF queues_parallel_New assms]
  by (simp add: queues_parallel_def)

theorem run_queue_lengths_witness:
  "run 4 NewTracker trace_two_responses = Some tracker_two_responses \<and>
   length (currentRecvBufQueue tracker_two_responses) =
     length (currentRecvBytesQueue tracker_two_responses) \<and>
   length (currentSentBufQueue tracker_two_responses) =
     length (totalSentBytesQueue tracker_two_responses) \<and>
   sint (recordTestCountAtomic tracker_two_responses) \<le>
     int (length (currentSentBufQueue tracker_two_responses))"
  using run_queue_lengths [OF run_two_responses] run_two_responses
  by simp

text \<open>
  C7 as the spec words it fails after two requests and two responses: the counter is 1,
  two request buffers are queued and one response buffer.
\<close>

theorem run_queue_lengths_counterexample:
  "run 4 NewTracker trace_two_responses = Some tracker_two_responses \<and>
   0 < sint (recordTestCountAtomic tracker_two_responses) \<and>
   length (currentRecvBufQueue tracker_two_responses) = 2 \<and>
   length (currentSentBufQueue tracker_two_responses) = 1"
  using run_two_responses
  by (simp add: tracker_two_responses_def)

subsection \<open>Growth of the buffers\<close>

lemma AddDataEvent_full_event:
  "\<exists>conn'. AddDataEvent E now (full_event E) conn = Some conn' \<and>
     length (SentBuf conn') = length (SentBuf conn) + E"
  by (simp add: AddDataEvent_def full_event_def Let_def logmsg_def UpdateTimestamps_def)

lemma run_full_events:
  "\<exists>conn'. run E conn (replicate k (DataEvent now (full_event E))) = Some conn' \<and>
     length (SentBuf conn') = length (SentBuf conn) + k * E"
proof (induction k arbitrary: conn)
  case 0
  then show ?case by simp
next
  case (Suc k)
  obtain conn1 where c1: "AddDataEvent E now (full_event E) conn = Some conn1"
    "length (SentBuf conn1) = length (SentBuf conn) + E"
    using AddDataEvent_full_event by blast
  obtain conn2 where c2: "run E conn1 (replicate k (DataEvent now (full_event E))) = Some conn2"
    "length (SentBuf conn2) = length (SentBuf conn1) + k * E"
    using Suc.IH by blast
  from c1 c2 show ?case by simp
qed

text \<open>
  C2 (as amended). A data event appends to the buffer of its direction the first
  \<open>min MsgSize EventBodyMaxSize\<close> bytes of its message, and nothing else: each buffer
  grows by at most \<open>EventBodyMaxSize\<close> bytes per event (the other buffer is kept, or
  emptied when it is moved to its queue), and the only thing logged is one debug line.
\<close>

theorem AddDataEvent_buffers:
  assumes "AddDataEvent E now event conn = Some conn'"
  shows "(case Direction event of
            EgressTraffic \<Rightarrow>
              SentBuf conn' = SentBuf conn @ take (min (MsgSize event) E) (Msg event) \<and>
              (RecvBuf conn' = RecvBuf conn \<or> RecvBuf conn' = [])
          | IngressTraffic \<Rightarrow>
              (SentBuf conn' = SentBuf conn \<or> SentBuf conn' = []) \<and>
              RecvBuf conn' = RecvBuf conn @ take (min (MsgSize event) E) (Msg event)
          | OtherTraffic \<Rightarrow> SentBuf conn' = SentBuf conn \<and> RecvBuf conn' = RecvBuf conn) \<and>
         length (SentBuf conn') \<le> length (SentBuf conn) + E \<and>
         length (RecvBuf conn') \<le> length (RecvBuf conn) + E \<and>
         logger conn' = logger conn @ [(Debug, ''Got a data event from eBPF'')]"
proof (cases "Direction event")
  case EgressTraffic
  with assms show ?thesis
    by (auto simp add: AddDataEvent_def Let_def logmsg_def UpdateTimestamps_def min_def
        split: if_splits)
next
  case IngressTraffic
  with assms show ?thesis
    by (auto simp add: AddDataEvent_def Let_def logmsg_def UpdateTimestamps_def min_def
        incRecordTestCount_def split: if_splits)
next
  case OtherTraffic
  with assms show ?thesis
    by (auto simp add: AddDataEvent_def Let_def logmsg_def UpdateTimestamps_def)
qed

theorem AddDataEvent_buffers_witness:
  "AddDataEvent 4 0 (ev1 EgressTraffic) NewTracker \<noteq> None \<and>
   SentBuf (the (AddDataEvent 4 0 (ev1 EgressTraffic) NewTracker)) = [7] \<and>
   logger (the (AddDataEvent 4 0 (ev1 EgressTraffic) NewTracker)) =
     [(Debug, ''Got a data event from eBPF'')]"
proof -
  obtain c where c: "AddDataEvent 4 0 (ev1 EgressTraffic) NewTracker = Some c"
    by (simp add: ev1_def tracker_defs)
  from AddDataEvent_buffers [OF c] c show ?thesis
    by (simp add: ev1_def NewTracker_def)
qed

text \<open>
  C2 as the spec words it fails: after 1025 outgoing events of 16384 bytes each, with no
  incoming event between them, the sent buffer is longer than \<open>maxBufferSize\<close>.
\<close>

theorem AddDataEvent_buffers_counterexample:
  "run 16384 NewTracker (replicate 1025 (DataEvent 0 (full_event 16384))) \<noteq> None \<and>
   maxBufferSize <
     length (SentBuf (the (run 16384 NewTracker (replicate 1025 (DataEvent 0 (full_event 16384))))))"
proof -
  obtain c where c: "run 16384 NewTracker (replicate 1025 (DataEvent 0 (full_event 16384))) = Some c"
    "length (SentBuf c) = length (SentBuf NewTracker) + 1025 * 16384"
    using run_full_events [of 16384 NewTracker 1025 0] by blast
  then show ?thesis by (simp add: NewTracker_def maxBufferSize_def)
qed

section \<open>Properties of the HTTP parser\<close>

lemmas world_defs = readDest_def readClient_def writeDest_def writeClient_def ReadBytes_def
  Write_def logw_def

lemmas http_defs = world_defs Let_def CRLF_def HasPrefix_def gzipMagicBytes_def
  Itoa_def natToDec.simps digit_char_def world_idle_def idle_conn_def

subsection \<open>The demultiplexing predicate\<close>

lemma HasPrefix_iff_prefix: "HasPrefix s pre \<longleftrightarrow> prefix pre s"
proof
  assume "HasPrefix s pre"
  then have "s = pre @ drop (length pre) s"
    by (metis HasPrefix_def append_take_drop_id)
  then show "prefix pre s" by (metis prefixI)
next
  assume "prefix pre s"
  then obtain r where "s = pre @ r" by (auto simp: prefix_def)
  then show "HasPrefix s pre" by (simp add: HasPrefix_def)
qed

text \<open>
  C5. \<open>OutgoingType b\<close> is true exactly when \<open>b\<close> starts with \<open>HTTP/\<close> or with one of
  the seven method keywords followed by a space.
\<close>

theorem OutgoingType_iff:
  "OutgoingType b \<longleftrightarrow>
     prefix ''HTTP/'' b \<or> prefix ''GET '' b \<or> prefix ''POST '' b \<or> prefix ''PUT '' b \<or>
     prefix ''PATCH '' b \<or> prefix ''DELETE '' b \<or> prefix ''OPTIONS '' b \<or> prefix ''HEAD '' b"
  unfolding OutgoingType_def HasPrefix_iff_prefix ..

lemma OutgoingType_examples:
  "OutgoingType (''GET /students HTTP/1.1'' @ CRLF)"
  "OutgoingType ''HTTP/1.1 200 OK''"
  "\<not> OutgoingType ''GET''"
  "\<not> OutgoingType ''get /''"
  "\<not> OutgoingType ''CONNECT example.com:443 HTTP/1.1''"
  "\<not> OutgoingType []"
  by (simp_all add: OutgoingType_def HasPrefix_def)

subsection \<open>Record mode: a reply that is not 100 Continue\<close>

lemma expectHeaderOf_request_expect: "expectHeaderOf request_expect = ''100-continue''"
  by (simp add: expectHeaderOf_def request_expect_def CRLF_def HasPrefix_def TrimPrefix_def
      TrimSpace_def isSpace_def)

text \<open>
  Whenever the request expects \<open>100 Continue\<close>, the reply of the destination is read
  and relayed without error, and the reply is not the 100 Continue line, the head of the
  loop ends \<open>encodeOutgoingHttp\<close> with the error value \<open>nil\<close>.
\<close>

lemma encodeExpect_not_100:
  assumes "expectHeaderOf finalReq = ''100-continue''"
    and "incoming (destConn w) = (resp, None) # later"
    and "writeResults (clientConn w) = []"
    and "resp \<noteq> continue100"
  shows "\<exists>w'. encodeExpect finalReq w = Inl (None, w') \<and>
           outgoing (clientConn w') = outgoing (clientConn w) @ [resp] \<and>
           logs w' = logs w @
             [(Debug, ''This is the response from the server after the expect header''),
              (Error, ''failed to get the 100 continue response from the user client'')]"
  using assms by (simp add: encodeExpect_def world_defs Let_def)

text \<open>
  C9 fails on the code. The request carries \<open>Expect: 100-continue\<close> and the destination
  answers \<open>417 Expectation Failed\<close>. The reply is relayed to the client, the error
  \<open>failed to get the 100 continue response\<close> is logged, and \<open>encodeOutgoingHttp\<close>
  returns \<open>nil\<close>, whatever the rest of the function would do: \<open>return err\<close> on line
  621 returns the \<open>err\<close> of the write before it, which has succeeded.
\<close>

theorem encodeOutgoingHttp_not_100_returns_nil:
  "expectHeaderOf request_expect = ''100-continue'' \<and>
   reply_417 \<noteq> continue100 \<and>
   fst (encodeOutgoingHttp rest request_expect world_417) = None \<and>
   logs (snd (encodeOutgoingHttp rest request_expect world_417)) =
     [(Debug, ''This is the initial request''),
      (Debug, ''This is the response from the server after the expect header''),
      (Error, ''failed to get the 100 continue response from the user client'')] \<and>
   outgoing (clientConn (snd (encodeOutgoingHttp rest request_expect world_417))) = [reply_417]"
  using expectHeaderOf_request_expect
  by (simp add: encodeOutgoingHttp_def encodeExpect_def world_417_def world_idle_def idle_conn_def
      world_defs reply_417_def continue100_def CRLF_def Let_def)

subsection \<open>Replay mode: the response to a matched mock\<close>







subsection \<open>Replay mode: no mock matched\<close>

lemma isPassthroughHost_iff:
  "isPassthroughHost reqHost hosts acc \<longleftrightarrow> acc \<or> reqHost \<in> set hosts"
  by (induction hosts arbitrary: acc) auto

lemma Passthrough_logs: "logs (snd (Passthrough bs w)) = logs w"
proof -
  have wa: "logs (snd (writeAll bs w)) = logs w" for bs w
    by (induction bs arbitrary: w)
       (auto simp add: world_defs Let_def split: prod.splits list.splits option.splits)
  show ?thesis
    using wa [of bs w]
    by (auto simp add: Passthrough_def world_defs Let_def
        split: prod.splits list.splits option.splits)
qed

lemma passMiss_logs:
  assumes "passMiss env reqHost requestBuffer w = (out, w')"
  shows "out = Return \<and>
         (\<exists>rest_logs. logs w' = logs w @
              (if reqHost \<in> set (PassThroughHosts env) then [] else [(Error, missMessage)]) @
              rest_logs \<and>
            (Error, missMessage) \<notin> set rest_logs)"
proof -
  define w1 where
    "w1 = (if \<not> isPassthroughHost reqHost (PassThroughHosts env) False
           then logw Error missMessage w else w)"
  have l1: "logs w1 = logs w @
      (if reqHost \<in> set (PassThroughHosts env) then [] else [(Error, missMessage)])"
    by (simp add: w1_def isPassthroughHost_iff logw_def)
  have l2: "logs (snd (Passthrough [requestBuffer] w1)) = logs w1"
    by (rule Passthrough_logs)
  from assms have "out = Return" by (simp add: passMiss_def Let_def split: prod.splits)
  moreover from assms have "logs w' = logs (snd (Passthrough [requestBuffer] w1)) \<or>
      logs w' = logs (snd (Passthrough [requestBuffer] w1)) @
        [(Error, ''failed to passthrough http request'')]"
    by (auto simp add: passMiss_def Let_def w1_def logw_def split: prod.splits if_splits)
  ultimately show ?thesis
    using l1 l2 by (auto simp add: missMessage_def)
qed

lemma passMiss_io:
  assumes "passMiss env reqHost requestBuffer w = (out, w')"
    and "writeResults (destConn w) = []" and "writeResults (clientConn w) = []"
    and "incoming (destConn w) = (resp, None) # later"
  shows "outgoing (destConn w') = outgoing (destConn w) @ [requestBuffer] \<and>
         outgoing (clientConn w') = outgoing (clientConn w) @ [resp] \<and>
         incoming (destConn w') = later"
  using assms
  by (auto simp add: passMiss_def Passthrough_def world_defs Let_def split: if_splits)

text \<open>
  C8. When no mock matches, the pass ends the function; the miss is logged exactly when
  the host of the request is not among the pass-through hosts; and, when the writes
  succeed and the destination answers, the request buffer is what the destination
  receives and the answer of the destination is what the client receives.
\<close>

theorem decodeMatched_miss:
  "case decodeMatched env reqHost requestBuffer (False, stub, err) w of (out, w') \<Rightarrow>
     out = Return \<and>
     ((Error, missMessage) \<in> set (drop (length (logs w)) (logs w')) \<longleftrightarrow>
        reqHost \<notin> set (PassThroughHosts env)) \<and>
     (writeResults (destConn w) = [] \<and> writeResults (clientConn w) = [] \<and>
      incoming (destConn w) = (resp, None) # later \<longrightarrow>
        outgoing (destConn w') = outgoing (destConn w) @ [requestBuffer] \<and>
        outgoing (clientConn w') = outgoing (clientConn w) @ [resp] \<and>
        incoming (destConn w') = later)"
proof -
  define w1 where
    "w1 = (if err \<noteq> None then logw Error ''error while matching http mocks'' w else w)"
  obtain out w' where r: "passMiss env reqHost requestBuffer w1 = (out, w')"
    by (cases "passMiss env reqHost requestBuffer w1")
  have d: "decodeMatched env reqHost requestBuffer (False, stub, err) w = (out, w')"
    using r by (simp add: decodeMatched_def w1_def Let_def)
  have same: "clientConn w1 = clientConn w" "destConn w1 = destConn w"
    by (simp_all add: w1_def logw_def)
  obtain pre where pre: "logs w1 = logs w @ pre" "(Error, missMessage) \<notin> set pre"
    by (cases "err = None") (simp_all add: w1_def logw_def missMessage_def)
  from passMiss_logs [OF r] obtain rest_logs where rest_logs: "out = Return"
    "logs w' = logs w1 @
       (if reqHost \<in> set (PassThroughHosts env) then [] else [(Error, missMessage)]) @ rest_logs"
    "(Error, missMessage) \<notin> set rest_logs" by blast
  have logpart: "(Error, missMessage) \<in> set (drop (length (logs w)) (logs w')) \<longleftrightarrow>
        reqHost \<notin> set (PassThroughHosts env)"
    using pre rest_logs by auto
  have iopart: "outgoing (destConn w') = outgoing (destConn w) @ [requestBuffer] \<and>
        outgoing (clientConn w') = outgoing (clientConn w) @ [resp] \<and>
        incoming (destConn w') = later"
    if "writeResults (destConn w) = [] \<and> writeResults (clientConn w) = [] \<and>
      incoming (destConn w) = (resp, None) # later"
    using passMiss_io [OF r, of resp later] that same by simp
  show ?thesis
    using rest_logs(1) logpart iopart by (simp add: d)
qed

text \<open>
  The theorem for a host that is not on the list (the miss is logged) and for one that
  is (nothing is logged); both times the request is forwarded and the answer relayed.
\<close>

theorem decodeMatched_miss_witness:
  "decodeMatched env_example ''db.example.com'' request_post (False, stub_gzip, None) world_upstream =
     (Return, \<lparr> clientConn = idle_conn\<lparr> outgoing := [reply_ok] \<rparr>,
                destConn = idle_conn\<lparr> outgoing := [request_post] \<rparr>,
                logs = [(Error, missMessage)], mocks = [] \<rparr>) \<and>
   ''db.example.com'' \<notin> set (PassThroughHosts env_example) \<and>
   decodeMatched env_example ''localhost'' request_post (False, stub_gzip, None) world_upstream =
     (Return, \<lparr> clientConn = idle_conn\<lparr> outgoing := [reply_ok] \<rparr>,
                destConn = idle_conn\<lparr> outgoing := [request_post] \<rparr>,
                logs = [], mocks = [] \<rparr>) \<and>
   ''localhost'' \<in> set (PassThroughHosts env_example)"
  using decodeMatched_miss [where env = env_example and reqHost = "''db.example.com''"
      and requestBuffer = request_post and stub = stub_gzip and err = None
      and w = world_upstream and resp = reply_ok and later = "[]"]
    decodeMatched_miss [where env = env_example and reqHost = "''localhost''"
      and requestBuffer = request_post and stub = stub_gzip and err = None
      and w = world_upstream and resp = reply_ok and later = "[]"]
  by (simp add: decodeMatched_def passMiss_def Passthrough_def env_example_def world_upstream_def
      world_idle_def idle_conn_def world_defs Let_def)

subsection \<open>Record mode: the stored response\<close>

lemma checkIfGzipped_iff: "checkIfGzipped (content, e) \<longleftrightarrow> gzipMagic content"
  by (auto simp add: checkIfGzipped_def Peek_def gzipMagic_def Let_def split: option.splits)

lemma map_of_replace:
  "key \<in> fst ` set h \<Longrightarrow>
   map_of (map (\<lambda>(k, vs). if k = key then (k, [v]) else (k, vs)) h) key = Some [v]"
proof (induction h)
  case Nil
  then show ?case by simp
next
  case (Cons a h)
  obtain k vs where a: "a = (k, vs)" by (cases a)
  show ?case
  proof (cases "k = key")
    case True
    then show ?thesis by (simp add: a)
  next
    case False
    with Cons a show ?thesis by simp
  qed
qed

lemma HeaderGet_HeaderSet: "HeaderGet (HeaderSet h key v) key = v"
proof (cases "key \<in> fst ` set h")
  case True
  with map_of_replace [OF True, of v] show ?thesis
    by (simp add: HeaderGet_def HeaderSet_def)
next
  case False
  then have "map_of h key = None" by (simp add: map_of_eq_None_iff)
  with False show ?thesis by (simp add: HeaderGet_def HeaderSet_def map_add_def)
qed

lemma responseBodyReader_Inl:
  "responseBodyReader env respParsed check w = Inl (err, w1) \<Longrightarrow> err \<noteq> None"
  by (auto simp add: responseBodyReader_def Let_def split: if_splits sum.splits)

lemma responseBodyReader_Inr:
  assumes "responseBodyReader env respParsed (content, e) w = Inr (body, w1)"
  shows "mocks w1 = mocks w \<and>
         (if HeaderGet (resp_Header respParsed) ''Content-Encoding'' = ''gzip''
          then (if gzipMagic content then gunzip env (content, e) = Inr body
                else body = (drop (bufioFill env (content, e)) content, e))
          else body = (content, e))"
  using assms
  by (auto simp add: responseBodyReader_def Let_def checkIfGzipped_iff logw_def
      split: if_splits sum.splits)

lemma readResponseBody_Inl:
  "readResponseBody env respParsed w = Inl (err, w1) \<Longrightarrow> err \<noteq> None"
  by (auto simp add: readResponseBody_def Let_def ReadAll_def
      split: option.splits sum.splits prod.splits if_splits
      dest: responseBodyReader_Inl)

lemma readResponseBody_Inr:
  assumes "readResponseBody env respParsed w = Inr (respBody, respHeader, w1)"
    and "resp_Body respParsed = Some (content, e)"
  shows "respHeader =
           HeaderSet (resp_Header respParsed) ''Content-Length'' (Itoa (int (length respBody))) \<and>
         mocks w1 = mocks w \<and>
         (if HeaderGet (resp_Header respParsed) ''Content-Encoding'' = ''gzip''
          then (if gzipMagic content then gunzip env (content, e) = Inr (respBody, None)
                else respBody = drop (bufioFill env (content, e)) content)
          else respBody = content)"
proof -
  from assms obtain body w2 where
    b: "responseBodyReader env respParsed (content, e) w = Inr (body, w2)"
    and r: "ReadAll body = (respBody, None)"
    and h: "respHeader =
       HeaderSet (resp_Header respParsed) ''Content-Length'' (Itoa (int (length respBody)))"
    and m: "mocks w1 = mocks w2"
    by (auto simp add: readResponseBody_def Let_def logw_def
        split: sum.splits prod.splits if_splits)
  from responseBodyReader_Inr [OF b] r h m show ?thesis
    by (auto simp add: ReadAll_def split: if_splits)
qed

lemmas ParseFinalHttp_defs = ParseFinalHttp_def readResponseBody_def responseBodyReader_def
  env_example_def parsed_post_def parsed_gzip_def parsed_mislabelled_def response_gzip_def
  response_mislabelled_def request_post_def standin_gunzip_def gzipMagic_def checkIfGzipped_def
  Peek_def HeaderGet_def HeaderSet_def ReadAll_def http_defs

lemma ParseFinalHttp_gzip:
  "ParseFinalHttp env_example request_post response_gzip 10 20 world_idle =
     (None,
      \<lparr> clientConn = idle_conn, destConn = idle_conn,
        logs = [(Debug, ''The body is gzip?''), (Debug, []), (Debug, ''This is the response body'')],
        mocks = [\<lparr> Version = ''api.keploy.io/v1beta1'', Name = ''mocks'', Kind = ''Http'',
          Metadata = [(''name'', ''Http''), (''type'', ''HTTP_CLIENT''), (''operation'', ''POST'')],
          HttpReq = \<lparr> Method = ''POST'', ProtoMajor = 1, ProtoMinor = 1, URL = ''/students'',
                      ReqHeader = [(''Content-Length'', ''2'')], ReqBody = ''{}'', URLParams = [],
                      Host = ''db.example.com'' \<rparr>,
          HttpResp = \<lparr> StatusCode = 201,
                       RespHeader = [(''Content-Encoding'', ''gzip''), (''Content-Length'', ''2'')],
                       RespBody = ''[]'' \<rparr>,
          Created = 0, ReqTimestampMock = 10, ResTimestampMock = 20 \<rparr>] \<rparr>)"
  by (simp add: ParseFinalHttp_defs)

lemma ParseFinalHttp_mislabelled:
  "ParseFinalHttp env_example request_post response_mislabelled 10 20 world_idle =
     (None,
      \<lparr> clientConn = idle_conn, destConn = idle_conn,
        logs = [(Debug, ''The body is gzip?''), (Debug, []), (Debug, ''This is the response body'')],
        mocks = [\<lparr> Version = ''api.keploy.io/v1beta1'', Name = ''mocks'', Kind = ''Http'',
          Metadata = [(''name'', ''Http''), (''type'', ''HTTP_CLIENT''), (''operation'', ''POST'')],
          HttpReq = \<lparr> Method = ''POST'', ProtoMajor = 1, ProtoMinor = 1, URL = ''/students'',
                      ReqHeader = [(''Content-Length'', ''2'')], ReqBody = ''{}'', URLParams = [],
                      Host = ''db.example.com'' \<rparr>,
          HttpResp = \<lparr> StatusCode = 200,
                       RespHeader = [(''Content-Encoding'', ''gzip''), (''Content-Length'', ''0'')],
                       RespBody = [] \<rparr>,
          Created = 0, ReqTimestampMock = 10, ResTimestampMock = 20 \<rparr>] \<rparr>)"
  by (simp add: ParseFinalHttp_defs)

text \<open>
  C4 (as amended). When \<open>ParseFinalHttp\<close> succeeds for a host that is not a
  pass-through host, it stores one mock. The stored \<open>Content-Length\<close> is the length of
  the stored body. If \<open>Content-Encoding\<close> of the response is not \<open>gzip\<close>, the stored
  body is the body as received. If it is \<open>gzip\<close> and the body starts with the gzip magic
  bytes, the stored body is the decompressed body.
\<close>

theorem ParseFinalHttp_stored:
  assumes "ReadRequest env finalReq = Inr req"
    and "ReadResponse env finalResp req = Inr respParsed"
    and "resp_Body respParsed = Some (content, e)"
    and "req_Host req \<notin> set (PassThroughHosts env)"
    and "ParseFinalHttp env finalReq finalResp t1 t2 w = (None, w')"
  shows "\<exists>mock respHeader.
           mocks w' = mocks w @ [mock] \<and>
           RespHeader (HttpResp mock) = ToYamlHttpHeader env respHeader \<and>
           HeaderGet respHeader ''Content-Length'' = Itoa (int (length (RespBody (HttpResp mock)))) \<and>
           (if HeaderGet (resp_Header respParsed) ''Content-Encoding'' = ''gzip''
            then (gzipMagic content \<longrightarrow>
                    gunzip env (content, e) = Inr (RespBody (HttpResp mock), None))
            else RespBody (HttpResp mock) = content)"
proof -
  from assms obtain respBody respHeader w1 where
    rb: "readResponseBody env respParsed w = Inr (respBody, respHeader, w1)"
    and w': "mocks w' = mocks w1 @
       [\<lparr> Version = GetVersion env, Name = ''mocks'', Kind = HTTP env,
          Metadata = [(''name'', ''Http''), (''type'', HttpClient env),
                      (''operation'', req_Method req)],
          HttpReq = \<lparr> Method = req_Method req,
            ProtoMajor = req_ProtoMajor req, ProtoMinor = req_ProtoMinor req,
            URL = req_URL req, ReqHeader = ToYamlHttpHeader env (req_Header req),
            ReqBody = fst (case req_Body req of None \<Rightarrow> ([], None) | Some rd \<Rightarrow> ReadAll rd),
            URLParams = UrlParams env req, Host = req_Host req \<rparr>,
          HttpResp = \<lparr> StatusCode = resp_StatusCode respParsed,
            RespHeader = ToYamlHttpHeader env respHeader, RespBody = respBody \<rparr>,
          Created = timeNowUnix env, ReqTimestampMock = t1, ResTimestampMock = t2 \<rparr>]"
    by (auto simp add: ParseFinalHttp_def Let_def isPassthroughHost_iff logw_def
        split: sum.splits prod.splits if_splits dest: readResponseBody_Inl)
  from readResponseBody_Inr [OF rb assms(3)] w' show ?thesis
    by (auto simp add: HeaderGet_HeaderSet)
qed

text \<open>
  The theorem at a response with \<open>Content-Encoding: gzip\<close> whose body is gzip data: the
  stored body is the decompressed \<open>[]\<close> and the stored \<open>Content-Length\<close> is 2.
\<close>

theorem ParseFinalHttp_stored_witness:
  "fst (ParseFinalHttp env_example request_post response_gzip 10 20 world_idle) = None \<and>
   map HttpResp (mocks (snd (ParseFinalHttp env_example request_post response_gzip 10 20 world_idle))) =
     [\<lparr> StatusCode = 201,
        RespHeader = [(''Content-Encoding'', ''gzip''), (''Content-Length'', ''2'')],
        RespBody = ''[]'' \<rparr>] \<and>
   gzipMagic (gzipMagicBytes @ ''[]'') \<and>
   gunzip env_example (gzipMagicBytes @ ''[]'', None) = Inr (''[]'', None)"
proof -
  have h1: "ReadRequest env_example request_post = Inr parsed_post"
    by (simp add: env_example_def)
  have h2: "ReadResponse env_example response_gzip parsed_post = Inr parsed_gzip"
    by (simp add: env_example_def)
  have h3: "resp_Body parsed_gzip = Some (gzipMagicBytes @ ''[]'', None)"
    by (simp add: parsed_gzip_def)
  have h4: "req_Host parsed_post \<notin> set (PassThroughHosts env_example)"
    by (simp add: parsed_post_def env_example_def)
  from ParseFinalHttp_stored [OF h1 h2 h3 h4 ParseFinalHttp_gzip] ParseFinalHttp_gzip
  show ?thesis
    by (simp add: env_example_def standin_gunzip_def gzipMagic_def gzipMagicBytes_def)
qed

text \<open>
  C4 as the spec words it fails at a response that announces \<open>Content-Encoding: gzip\<close>
  and carries the plain text \<open>hello\<close>: nothing is decompressed (the bytes are not gzip
  data), and yet the exchange is stored and the function returns \<open>nil\<close>. The stored
  body is what the buffered reader of the check left unread, here nothing, and the stored
  \<open>Content-Length\<close> is 0.
\<close>

theorem ParseFinalHttp_stored_counterexample:
  "HeaderGet (resp_Header parsed_mislabelled) ''Content-Encoding'' = ''gzip'' \<and>
   resp_Body parsed_mislabelled = Some (''hello'', None) \<and>
   gunzip env_example (''hello'', None) = Inl (OtherError ''gzip: invalid header'') \<and>
   fst (ParseFinalHttp env_example request_post response_mislabelled 10 20 world_idle) = None \<and>
   map HttpResp
     (mocks (snd (ParseFinalHttp env_example request_post response_mislabelled 10 20 world_idle))) =
     [\<lparr> StatusCode = 200,
        RespHeader = [(''Content-Encoding'', ''gzip''), (''Content-Length'', ''0'')],
        RespBody = [] \<rparr>]"
  using ParseFinalHttp_mislabelled
  by (simp add: parsed_mislabelled_def HeaderGet_def env_example_def standin_gunzip_def gzipMagic_def)

end
